theory Spec2Isabelle
  imports Main "HOL-Library.Word" "HOL-Library.Sublist"
begin

section \<open>Common values\<close>

text \<open>
  A Python \<open>str\<close> is a \<open>string\<close>; a character of the model is a code point below 256.
  An exception is represented by its text (what \<open>str(e)\<close> and an f-string print);
  one that the interpreter or the standard library raises, by the name of its class.
  What a call raises is either an instance of \<open>Exception\<close>, which a handler
  \<open>except Exception\<close> catches, or another \<open>BaseException\<close> (\<open>CancelledError\<close>,
  \<open>KeyboardInterrupt\<close>, \<open>SystemExit\<close>, a class of the caller's own), which such a
  handler lets through.
  A coroutine either returns, raises, or never returns (it waits for a permit that
  nobody releases); what the state is after a raise is not followed.
\<close>

type_synonym exn = string

datatype raised = Exception exn | BaseException exn

datatype 'a outcome = Returns 'a | Raises raised | Hangs

text \<open>\<open>str.isspace\<close> on the code points below 256, and \<open>str.strip()\<close>.\<close>

definition isspace :: "char \<Rightarrow> bool" where
  "isspace c = ((of_char c :: nat) \<in> {9, 10, 11, 12, 13, 28, 29, 30, 31, 32, 133, 160})"

definition strip :: "string \<Rightarrow> string" where
  "strip s = rev (dropWhile isspace (rev (dropWhile isspace s)))"

section \<open>vectorstore.py\<close>

subsection \<open>Data\<close>

record Document =
  page_content :: string
  metadata :: "(string \<times> string) list"

text \<open>
  The FAISS store is external. Of its state the model keeps the documents of the docstore
  in insertion order (the values of \<open>docstore._dict\<close>); a FAISS object is always truthy,
  so \<open>not self.vector_index\<close> is the test for \<open>None\<close>.
\<close>

type_synonym FAISS = "Document list"

text \<open>The compression retriever; \<open>top_n\<close> is \<open>base_compressor.top_n\<close>.\<close>

datatype ContextualCompressionRetriever = Retriever (top_n: "int option")

text \<open>The persist directory: it does not exist, or it holds what was last saved there.\<close>

datatype disk = Missing | Saved FAISS

record VectorStore =
  batch_size :: int
  persist_directory :: string
  max_concurrent :: int
  use_reranker :: bool
  reranker_model :: string
  reranker_top_n :: "int option"
  vector_index :: "FAISS option"
  added_doc_hashes :: "string set"
  compression_retriever :: "ContextualCompressionRetriever option"
  semaphore :: int

text \<open>
  The behaviour of the libraries the class calls, taken as a parameter of every function.
  \<^item> \<open>md5\<close>: the 128-bit digest of \<open>hashlib.md5(s.encode("utf-8"))\<close>.
  \<^item> \<open>from_documents_error\<close>: what \<open>FAISS.from_documents\<close> raises, if it raises. A call
    that returns gives a store holding exactly the documents it was given.
  \<^item> \<open>add_documents_error\<close>: what \<open>add_documents\<close> raises, if it raises, and the
    documents the store holds then: the call works on the store in place, and the class
    undoes nothing, so after a raise the store is as the library left it. A call that
    returns has put the documents it was given after those the store held.
  \<^item> \<open>save_local_error\<close>, \<open>load_local_error\<close>, \<open>rmtree_error\<close>: whether writing, reading
    and removing the persist directory raise; a failed call leaves the directory as it was.
  \<^item> \<open>reranker_error\<close>: whether building the cross encoder and the retriever around it
    raises, by model name.
  \<^item> \<open>asimilarity_search\<close>: the store's own top-k search.
  \<^item> \<open>ainvoke\<close>: the compression retriever's answer over the store it wraps.
  The two writes to the store carry the class of what they raise. The other calls are
  followed for raises of class \<open>Exception\<close> only (type \<open>exn\<close>), which every handler
  around them catches.
\<close>

record externals =
  md5 :: "string \<Rightarrow> 128 word"
  from_documents_error :: "Document list \<Rightarrow> raised option"
  add_documents_error :: "FAISS \<Rightarrow> Document list \<Rightarrow> (raised \<times> FAISS) option"
  save_local_error :: "FAISS \<Rightarrow> exn option"
  load_local_error :: "FAISS \<Rightarrow> exn option"
  rmtree_error :: "exn option"
  reranker_error :: "string \<Rightarrow> exn option"
  asimilarity_search :: "FAISS \<Rightarrow> string \<Rightarrow> int \<Rightarrow> exn + Document list"
  ainvoke :: "FAISS option \<Rightarrow> ContextualCompressionRetriever \<Rightarrow> string \<Rightarrow> exn + Document list"

definition FAISS_from_documents :: "externals \<Rightarrow> Document list \<Rightarrow> raised + FAISS" where
  "FAISS_from_documents E batch =
     (case from_documents_error E batch of Some x \<Rightarrow> Inl x | None \<Rightarrow> Inr batch)"

text \<open>\<open>Inl (x, left)\<close>: the call raised \<open>x\<close> and the store holds \<open>left\<close>.\<close>

definition FAISS_add_documents ::
    "externals \<Rightarrow> FAISS \<Rightarrow> Document list \<Rightarrow> (raised \<times> FAISS) + FAISS" where
  "FAISS_add_documents E ix batch =
     (case add_documents_error E ix batch of
        Some (x, left) \<Rightarrow> Inl (x, left)
      | None \<Rightarrow> Inr (ix @ batch))"

subsection \<open>Reranker setup\<close>

definition setup_reranker :: "externals \<Rightarrow> VectorStore \<Rightarrow> VectorStore" where
  "setup_reranker E s =
     (if \<not> use_reranker s \<or> vector_index s = None then s
      else (case reranker_error E (reranker_model s) of
              None \<Rightarrow> s\<lparr>compression_retriever := Some (Retriever (reranker_top_n s))\<rparr>
            | Some e \<Rightarrow> s\<lparr>use_reranker := False\<rparr>))"

definition perform_reranked_search ::
    "externals \<Rightarrow> VectorStore \<Rightarrow> string \<Rightarrow> int \<Rightarrow> (exn + Document list) \<times> VectorStore" where
  "perform_reranked_search E s query k =
     (if use_reranker s \<and> compression_retriever s \<noteq> None
      then (let r = Retriever (Some k)
            in (ainvoke E (vector_index s) r query, s\<lparr>compression_retriever := Some r\<rparr>))
      else (Inr [], s))"

subsection \<open>Document hashing operations\<close>

text \<open>\<open>hexdigest()\<close>: the 32 lower-case hexadecimal digits of the digest.\<close>

definition hexchar :: "nat \<Rightarrow> char" where
  "hexchar n = ''0123456789abcdef'' ! (n mod 16)"

definition hexdigest :: "128 word \<Rightarrow> string" where
  "hexdigest w = map (\<lambda>i. hexchar (unat (drop_bit (4 * (31 - i)) w))) [0..<32]"

definition get_document_hash :: "externals \<Rightarrow> Document \<Rightarrow> string" where
  "get_document_hash E doc =
     (if page_content doc \<noteq> [] then hexdigest (md5 E (page_content doc)) else [])"

definition update_doc_hashes :: "externals \<Rightarrow> VectorStore \<Rightarrow> Document list \<Rightarrow> VectorStore" where
  "update_doc_hashes E s batch =
     s\<lparr>added_doc_hashes := fold (\<lambda>doc H. insert (get_document_hash E doc) H) batch (added_doc_hashes s)\<rparr>"

definition reconstruct_hashes :: "externals \<Rightarrow> VectorStore \<Rightarrow> VectorStore" where
  "reconstruct_hashes E s =
     (case vector_index s of
        None \<Rightarrow> s
      | Some ix \<Rightarrow> s\<lparr>added_doc_hashes :=
                      fold (\<lambda>doc H. insert (get_document_hash E doc) H) ix (added_doc_hashes s)\<rparr>)"

text \<open>The walrus expression is read for its truth value: a non-empty hash not yet in the set.\<close>

definition is_new_document :: "externals \<Rightarrow> VectorStore \<Rightarrow> Document \<Rightarrow> bool" where
  "is_new_document E s doc =
     (let doc_hash = get_document_hash E doc
      in doc_hash \<noteq> [] \<and> doc_hash \<notin> added_doc_hashes s)"

subsection \<open>Document filtering and validation\<close>

definition filter_valid_docs :: "Document list \<Rightarrow> Document list" where
  "filter_valid_docs documents =
     filter (\<lambda>doc. page_content doc \<noteq> [] \<and> strip (page_content doc) \<noteq> []) documents"

subsection \<open>Index persistence\<close>

definition load_local_index :: "externals \<Rightarrow> VectorStore \<Rightarrow> disk \<Rightarrow> VectorStore" where
  "load_local_index E s d =
     (case d of
        Missing \<Rightarrow> s
      | Saved ix \<Rightarrow>
          (case load_local_error E ix of
             None \<Rightarrow> setup_reranker E (reconstruct_hashes E (s\<lparr>vector_index := Some ix\<rparr>))
           | Some e \<Rightarrow> s\<lparr>vector_index := None, added_doc_hashes := {}\<rparr>))"

definition save_local_index :: "externals \<Rightarrow> VectorStore \<Rightarrow> disk \<Rightarrow> disk" where
  "save_local_index E s d =
     (case vector_index s of
        None \<Rightarrow> d
      | Some ix \<Rightarrow> (case save_local_error E ix of None \<Rightarrow> Saved ix | Some e \<Rightarrow> d))"


text \<open>
  \<open>__post_init__\<close>: \<open>Semaphore(n)\<close> raises \<open>ValueError\<close> for a negative \<open>n\<close>; the
  semaphore of the model is its number of free permits.
\<close>

definition post_init :: "externals \<Rightarrow> VectorStore \<Rightarrow> disk \<Rightarrow> exn + VectorStore" where
  "post_init E s d =
     (if max_concurrent s < 0 then Inl ''ValueError''
      else Inr (setup_reranker E (load_local_index E (s\<lparr>semaphore := max_concurrent s\<rparr>) d)))"

subsection \<open>Batch processing\<close>

text \<open>
  \<open>[documents[i: i + batch_size] for i in range(0, len(documents), batch_size)]\<close>:
  \<open>range\<close> raises \<open>ValueError\<close> for a step of zero and is empty for a negative step; for a
  positive step \<open>b\<close> it has \<open>\<lceil>n / b\<rceil>\<close> elements \<open>0, b, 2b, ...\<close>.
\<close>

definition create_batches :: "VectorStore \<Rightarrow> Document list \<Rightarrow> exn + Document list list" where
  "create_batches s documents =
     (if batch_size s = 0 then Inl ''ValueError''
      else if batch_size s < 0 then Inr []
      else (let b = nat (batch_size s)
            in Inr (map (\<lambda>j. take b (drop (j * b) documents))
                        [0..<(length documents + b - 1) div b])))"

text \<open>
  \<open>async with self.semaphore\<close>: with a free permit the body runs at once, and it has no
  suspension point, so the permit is back before any other task runs; with no permit at all
  the task waits forever.
\<close>

text \<open>
  The write of a batch (the \<open>if\<close> and \<open>else\<close> at the head of the \<open>try\<close>), with the
  store object as it is afterwards. Without an index, \<open>from_documents\<close> builds a new store
  and the assignment happens only when it returns; with an index, \<open>add_documents\<close> works
  on \<open>self.vector_index\<close> itself, so what it has done before a raise stays.
\<close>

definition write_batch ::
    "externals \<Rightarrow> VectorStore \<Rightarrow> Document list \<Rightarrow> (raised \<times> VectorStore) + VectorStore" where
  "write_batch E s batch =
     (case vector_index s of
        None \<Rightarrow>
          (case FAISS_from_documents E batch of
             Inl x \<Rightarrow> Inl (x, s)
           | Inr ix' \<Rightarrow> Inr (s\<lparr>vector_index := Some ix'\<rparr>))
      | Some ix \<Rightarrow>
          (case FAISS_add_documents E ix batch of
             Inl (x, left) \<Rightarrow> Inl (x, s\<lparr>vector_index := Some left\<rparr>)
           | Inr ix' \<Rightarrow> Inr (s\<lparr>vector_index := Some ix'\<rparr>)))"

text \<open>
  The handler is \<open>except Exception\<close>: it logs and returns 0 for an \<open>Exception\<close> and lets
  any other \<open>BaseException\<close> through.
\<close>

definition add_batch_and_persist ::
    "externals \<Rightarrow> VectorStore \<Rightarrow> disk \<Rightarrow> Document list \<Rightarrow> (int \<times> VectorStore \<times> disk) outcome" where
  "add_batch_and_persist E s d batch =
     (if batch = [] then Returns (0, s, d)
      else if semaphore s \<le> 0 then Hangs
      else (case write_batch E s batch of
              Inl (Exception e, s') \<Rightarrow> Returns (0, s', d)
            | Inl (BaseException e, s') \<Rightarrow> Raises (BaseException e)
            | Inr s1 \<Rightarrow>
                (let d1 = save_local_index E s1 d;
                     s2 = update_doc_hashes E s1 batch
                 in Returns (int (length batch), s2, d1))))"

text \<open>
  \<open>asyncio.gather\<close> over the batches: the tasks start in order and none of them suspends
  between taking its permit and returning, so they run one after the other. The first
  raise is what \<open>gather\<close> raises.
\<close>

fun gather_batches ::
    "externals \<Rightarrow> VectorStore \<Rightarrow> disk \<Rightarrow> Document list list \<Rightarrow> (int list \<times> VectorStore \<times> disk) outcome" where
  "gather_batches E s d [] = Returns ([], s, d)"
| "gather_batches E s d (batch # batches) =
     (case add_batch_and_persist E s d batch of
        Hangs \<Rightarrow> Hangs
      | Raises e \<Rightarrow> Raises e
      | Returns (n, s', d') \<Rightarrow>
          (case gather_batches E s' d' batches of
             Hangs \<Rightarrow> Hangs
           | Raises e \<Rightarrow> Raises e
           | Returns (ns, s'', d'') \<Rightarrow> Returns (n # ns, s'', d'')))"

text \<open>
  The log line before the batches divides by \<open>batch_size\<close>, which raises
  \<open>ZeroDivisionError\<close> when it is zero.
\<close>

definition create_vector_index ::
    "externals \<Rightarrow> VectorStore \<Rightarrow> disk \<Rightarrow> Document list \<Rightarrow> (VectorStore \<times> disk) outcome" where
  "create_vector_index E s d documents =
     (if documents = [] then Returns (s, d)
      else (let valid_documents = filter_valid_docs documents
            in if valid_documents = [] then Returns (s, d)
               else (let new_documents = filter (is_new_document E s) valid_documents
                     in if new_documents = [] then Returns (s, d)
                        else if batch_size s = 0 then Raises (Exception ''ZeroDivisionError'')
                        else (case create_batches s new_documents of
                                Inl e \<Rightarrow> Raises (Exception e)
                              | Inr batches \<Rightarrow>
                                  (case gather_batches E s d batches of
                                     Hangs \<Rightarrow> Hangs
                                   | Raises e \<Rightarrow> Raises e
                                   | Returns (ns, s', d') \<Rightarrow> Returns (s', d'))))))"

subsection \<open>Vector index search\<close>

definition similarity_search ::
    "externals \<Rightarrow> VectorStore \<Rightarrow> string \<Rightarrow> int \<Rightarrow> Document list \<times> VectorStore" where
  "similarity_search E s query k =
     (case vector_index s of
        None \<Rightarrow> ([], s)
      | Some ix \<Rightarrow>
          (if use_reranker s
           then (case perform_reranked_search E s query k of
                   (Inl e, s') \<Rightarrow> ([], s')
                 | (Inr docs, s') \<Rightarrow> (docs, s'))
           else (case asimilarity_search E ix query k of
                   Inl e \<Rightarrow> ([], s)
                 | Inr docs \<Rightarrow> (docs, s))))"

text \<open>
  \<open>asyncio.gather\<close> over the queries keeps the order of its arguments. Every task
  writes the same \<open>top_n = k\<close> before it waits, so running them in order gives the state
  and the results of any interleaving.
\<close>

fun gather_searches ::
    "externals \<Rightarrow> VectorStore \<Rightarrow> string list \<Rightarrow> int \<Rightarrow> Document list list \<times> VectorStore" where
  "gather_searches E s [] k = ([], s)"
| "gather_searches E s (query # queries) k =
     (case similarity_search E s query k of
        (docs, s') \<Rightarrow>
          (case gather_searches E s' queries k of
             (rest, s'') \<Rightarrow> (docs # rest, s'')))"

definition batch_query ::
    "externals \<Rightarrow> VectorStore \<Rightarrow> string list \<Rightarrow> int \<Rightarrow> Document list list \<times> VectorStore" where
  "batch_query E s queries k =
     (if vector_index s = None then (map (\<lambda>_. []) queries, s)
      else gather_searches E s queries k)"

section \<open>rag_chain.py\<close>

subsection \<open>Data\<close>

record turn =
  question :: string
  answer :: string

record RAGChain =
  memory :: "turn list"
  max_memory :: int

text \<open>
  The collaborators of one \<open>invoke\<close>, each call site with its own behaviour:
  \<^item> \<open>hybrid_retrieval\<close>: the retriever, on the question and \<open>k_vector\<close>;
  \<^item> \<open>llm_initial\<close>: the tagged first call of the language model, read as its text;
  \<^item> \<open>pubmed_tool\<close>: the PubMed tool, on the question;
  \<^item> \<open>llm_final\<close>: the second call of the language model, read as its text;
  \<^item> \<open>prompt_format\<close> (context, history, question) and \<open>reprompt_format\<close> (PubMed
    results, context, history, question): the two templates filled in.
  Each of the four calls returns a text or raises, an \<open>Exception\<close> or another
  \<open>BaseException\<close>.
\<close>

record services =
  hybrid_retrieval :: "string \<Rightarrow> int \<Rightarrow> raised + string"
  llm_initial :: "string \<Rightarrow> raised + string"
  pubmed_tool :: "string \<Rightarrow> raised + string"
  llm_final :: "string \<Rightarrow> raised + string"
  prompt_format :: "string \<Rightarrow> string \<Rightarrow> string \<Rightarrow> string"
  reprompt_format :: "string \<Rightarrow> string \<Rightarrow> string \<Rightarrow> string \<Rightarrow> string"

subsection \<open>Conversation memory\<close>

text \<open>\<open>xs[i:]\<close>: a negative start counts from the end and is clamped at the front.\<close>

definition slice_from :: "'a list \<Rightarrow> int \<Rightarrow> 'a list" where
  "slice_from xs i = (if i < 0 then drop (nat (int (length xs) + i)) xs else drop (nat i) xs)"

fun join :: "string \<Rightarrow> string list \<Rightarrow> string" where
  "join sep [] = []"
| "join sep [x] = x"
| "join sep (x # y # ys) = x @ sep @ join sep (y # ys)"

definition format_history :: "RAGChain \<Rightarrow> string" where
  "format_history c =
     (if memory c = [] then ''No previous conversation.''
      else join [CHR 0x0A]
             (concat (map (\<lambda>t. [''Human: '' @ question t, ''Assistant: '' @ answer t])
                          (slice_from (memory c) (- max_memory c)))))"

text \<open>\<open>append\<close>, then \<open>pop(0)\<close> when the list has grown past \<open>max_memory\<close>.\<close>

definition add_to_memory :: "RAGChain \<Rightarrow> string \<Rightarrow> string \<Rightarrow> RAGChain" where
  "add_to_memory c q a =
     (let m = memory c @ [\<lparr>question = q, answer = a\<rparr>]
      in if int (length m) > max_memory c then c\<lparr>memory := tl m\<rparr> else c\<lparr>memory := m\<rparr>)"

subsection \<open>invoke\<close>

definition tool_error_answer :: "exn \<Rightarrow> string \<Rightarrow> string" where
  "tool_error_answer e initial_answer =
     ''An error occurred while trying to use the PubMed tool: '' @ e @ [CHR 0x0A] @
     ''Original attempt: '' @ initial_answer"

text \<open>
  Only the tool branch stands in a \<open>try\<close>; the retrieval and the first call of the model
  are outside it. The handler is \<open>except Exception\<close>: an \<open>Exception\<close> raised by the tool
  or by the second call of the model becomes the answer built from its text, any other
  \<open>BaseException\<close> leaves \<open>invoke\<close>. The tracing decorator and the tracing context
  manager pass results and exceptions through. The result is the answer and the chain with
  its memory updated; when \<open>invoke\<close> raises, the memory has not been touched.
\<close>

definition invoke :: "services \<Rightarrow> RAGChain \<Rightarrow> string \<Rightarrow> int \<Rightarrow> raised + (string \<times> RAGChain)" where
  "invoke V c q k_vector =
     (case hybrid_retrieval V q k_vector of
        Inl x \<Rightarrow> Inl x
      | Inr context \<Rightarrow>
          (case llm_initial V (prompt_format V context (format_history c) q) of
             Inl x \<Rightarrow> Inl x
           | Inr initial_answer \<Rightarrow>
               (case (if sublist ''TOOL_USE:'' initial_answer
                      then (case (case pubmed_tool V q of
                                    Inl x \<Rightarrow> Inl x
                                  | Inr pubmed_results \<Rightarrow>
                                      llm_final V (reprompt_format V pubmed_results context
                                                     (format_history c) q)) of
                              Inl (Exception e) \<Rightarrow> Inr (tool_error_answer e initial_answer)
                            | Inl (BaseException e) \<Rightarrow> Inl (BaseException e)
                            | Inr final \<Rightarrow> Inr final)
                      else Inr initial_answer) of
                  Inl x \<Rightarrow> Inl x
                | Inr answer' \<Rightarrow> Inr (answer', add_to_memory c q answer'))))"

section \<open>Auxiliary notions and sample inputs\<close>

text \<open>The documents a store holds: none while there is no index.\<close>

definition stored_documents :: "VectorStore \<Rightarrow> Document list" where
  "stored_documents s = (case vector_index s of None \<Rightarrow> [] | Some ix \<Rightarrow> ix)"

text \<open>
  The field defaults of the dataclass (the semaphore is set by \<open>post_init\<close>), and the
  store that \<open>post_init\<close> makes of them when there is no persist directory.
\<close>

definition VectorStore_defaults :: VectorStore where
  "VectorStore_defaults =
     \<lparr>batch_size = 200, persist_directory = ''faiss_index'', max_concurrent = 10,
      use_reranker = True, reranker_model = ''jinaai/jina-reranker-v1-turbo-en'',
      reranker_top_n = Some 4, vector_index = None, added_doc_hashes = {},
      compression_retriever = None, semaphore = 0\<rparr>"

definition ready :: VectorStore where
  "ready = VectorStore_defaults\<lparr>semaphore := 10\<rparr>"

text \<open>
  Sample libraries for the evaluations below. \<open>sample_md5\<close> gives the MD5 digests of the
  contents the samples use (\<open>" "\<close>, \<open>"a"\<close> and \<open>"b"\<close>). In \<open>quiet\<close> nothing raises; the
  store's search returns its first \<open>k\<close> documents and the retriever the first \<open>top_n\<close>.
\<close>

definition sample_md5 :: "string \<Rightarrow> 128 word" where
  "sample_md5 s =
     (if s = '' '' then 0x7215ee9c7d9dc229d2921a40e899ec5f
      else if s = ''a'' then 0x0cc175b9c0f1b6a831c399e269772661
      else if s = ''b'' then 0x92eb5ffee6ae2fec3ad71c777531578f
      else 0)"

definition quiet :: externals where
  "quiet =
     \<lparr>md5 = sample_md5,
      from_documents_error = (\<lambda>batch. None),
      add_documents_error = (\<lambda>ix batch. None),
      save_local_error = (\<lambda>ix. None),
      load_local_error = (\<lambda>ix. None),
      rmtree_error = None,
      reranker_error = (\<lambda>model. None),
      asimilarity_search = (\<lambda>ix query k. Inr (take (nat k) ix)),
      ainvoke = (\<lambda>ix r query.
                  Inr (take (nat (case top_n r of None \<Rightarrow> 0 | Some n \<Rightarrow> n))
                            (case ix of None \<Rightarrow> [] | Some docs \<Rightarrow> docs)))\<rparr>"

text \<open>
  As \<open>quiet\<close>, but: \<open>from_documents\<close> raises an \<open>Exception\<close> (\<open>create_fails\<close>);
  \<open>add_documents\<close> raises an \<open>Exception\<close> before it has added anything
  (\<open>write_fails\<close>), or after it has added the first document of the batch
  (\<open>write_fails_midway\<close>); \<open>add_documents\<close> is interrupted from the keyboard
  (\<open>write_interrupted\<close>); \<open>rmtree\<close> raises (\<open>rmtree_fails\<close>).
\<close>

definition create_fails :: externals where
  "create_fails =
     quiet\<lparr>from_documents_error := (\<lambda>batch. Some (Exception ''embedding request failed''))\<rparr>"

definition write_fails :: externals where
  "write_fails =
     quiet\<lparr>add_documents_error :=
             (\<lambda>ix batch. Some (Exception ''embedding request failed'', ix))\<rparr>"

definition write_fails_midway :: externals where
  "write_fails_midway =
     quiet\<lparr>add_documents_error :=
             (\<lambda>ix batch. Some (Exception ''out of memory'', ix @ take 1 batch))\<rparr>"

definition write_interrupted :: externals where
  "write_interrupted =
     quiet\<lparr>add_documents_error := (\<lambda>ix batch. Some (BaseException ''KeyboardInterrupt'', ix))\<rparr>"


text \<open>
  Two documents with the same content, one with another content, and one whose content is
  a single space.
\<close>

definition doc_a1 :: Document where
  "doc_a1 = \<lparr>page_content = ''a'', metadata = [(''source'', ''1'')]\<rparr>"

definition doc_a2 :: Document where
  "doc_a2 = \<lparr>page_content = ''a'', metadata = [(''source'', ''2'')]\<rparr>"

definition doc_b :: Document where
  "doc_b = \<lparr>page_content = ''b'', metadata = [(''source'', ''3'')]\<rparr>"

definition doc_blank :: Document where
  "doc_blank = \<lparr>page_content = '' '', metadata = []\<rparr>"

text \<open>The store \<open>ready\<close> after it has taken in \<open>doc_a1\<close>.\<close>

definition holds_a1 :: VectorStore where
  "holds_a1 = ready\<lparr>vector_index := Some [doc_a1],
                     added_doc_hashes := {get_document_hash quiet doc_a1}\<rparr>"

text \<open>A run of \<open>add_to_memory\<close> calls, one per question and answer, in order.\<close>

definition appends :: "RAGChain \<Rightarrow> (string \<times> string) list \<Rightarrow> RAGChain" where
  "appends c qas = foldl (\<lambda>c' (q, a). add_to_memory c' q a) c qas"

definition as_turn :: "string \<times> string \<Rightarrow> turn" where
  "as_turn qa = \<lparr>question = fst qa, answer = snd qa\<rparr>"

text \<open>
  A chain as the constructor leaves it, and sample collaborators: the model asks for the
  tool on its first call and answers on its second. In \<open>retriever_down\<close> the retriever
  raises, in \<open>model_down\<close> the first call of the model, in \<open>pubmed_down\<close> the tool
  (an \<open>Exception\<close> each); in \<open>pubmed_cancelled\<close> the call of the tool, and in
  \<open>second_call_cancelled\<close> the second call of the model, raises a \<open>CancelledError\<close>
  (the task was cancelled during the call), which is not an \<open>Exception\<close>.
\<close>

definition new_chain :: "int \<Rightarrow> RAGChain" where
  "new_chain n = \<lparr>memory = [], max_memory = n\<rparr>"

definition stub_services :: services where
  "stub_services =
     \<lparr>hybrid_retrieval = (\<lambda>q k. Inr ''context''),
      llm_initial = (\<lambda>prompt. Inr ''TOOL_USE: need more info''),
      pubmed_tool = (\<lambda>q. Inr ''pubmed results''),
      llm_final = (\<lambda>prompt. Inr ''a real answer''),
      prompt_format = (\<lambda>context history q. context @ history @ q),
      reprompt_format = (\<lambda>results context history q. results @ context @ history @ q)\<rparr>"



definition pubmed_down :: services where
  "pubmed_down = stub_services\<lparr>pubmed_tool := (\<lambda>q. Inl (Exception ''HTTP Error 429''))\<rparr>"

definition pubmed_cancelled :: services where
  "pubmed_cancelled = stub_services\<lparr>pubmed_tool := (\<lambda>q. Inl (BaseException ''CancelledError''))\<rparr>"


section \<open>Facts about the model\<close>

lemmas sample_defs = quiet_def ready_def VectorStore_defaults_def doc_a1_def doc_a2_def
  doc_b_def doc_blank_def

lemmas vs_defs = create_vector_index_def filter_valid_docs_def is_new_document_def
  get_document_hash_def create_batches_def add_batch_and_persist_def write_batch_def
  FAISS_from_documents_def FAISS_add_documents_def save_local_index_def update_doc_hashes_def
  strip_def isspace_def

subsection \<open>Hashing\<close>

lemma hexdigest_length: "length (hexdigest w) = 32"
  by (simp add: hexdigest_def)

lemma hexdigest_nonempty: "hexdigest w \<noteq> []"
  using hexdigest_length[of w] by auto

text \<open>The hex digests of the sample contents, as \<open>hashlib\<close> prints them.\<close>

lemma hexdigest_a: "hexdigest (sample_md5 ''a'') = ''0cc175b9c0f1b6a831c399e269772661''"
  by (simp add: sample_md5_def hexdigest_def hexchar_def upt_rec drop_bit_eq_div)

lemma hexdigest_b: "hexdigest (sample_md5 ''b'') = ''92eb5ffee6ae2fec3ad71c777531578f''"
  by (simp add: sample_md5_def hexdigest_def hexchar_def upt_rec drop_bit_eq_div)


text \<open>The write of a batch touches the index only.\<close>

lemma write_batch_failed:
  "write_batch E s batch = Inl (x, s') \<Longrightarrow>
     (vector_index s = None \<and> FAISS_from_documents E batch = Inl x \<and> s' = s)
     \<or> (\<exists>ix left. vector_index s = Some ix \<and> FAISS_add_documents E ix batch = Inl (x, left)
                   \<and> s' = s\<lparr>vector_index := Some left\<rparr>)"
  by (auto simp: write_batch_def split: option.splits sum.splits prod.splits)

subsection \<open>Search\<close>

lemma similarity_search_no_index: "vector_index s = None \<Longrightarrow> similarity_search E s q k = ([], s)"
  by (simp add: similarity_search_def)

text \<open>
  A search changes at most \<open>top_n\<close>, to \<open>k\<close>; a later search with the same \<open>k\<close> sets it
  again before it asks the retriever, so it finds what it would have found before.
\<close>

lemma similarity_search_after:
  "similarity_search E (snd (similarity_search E s q k)) q' k
     = (fst (similarity_search E s q' k), snd (similarity_search E s q k))"
  by (auto simp: similarity_search_def perform_reranked_search_def Let_def
      split: option.splits sum.splits prod.splits)

lemma gather_searches_map:
  "fst (gather_searches E s queries k) = map (\<lambda>q. fst (similarity_search E s q k)) queries"
proof (induction queries arbitrary: s)
  case Nil
  show ?case by simp
next
  case (Cons q qs)
  obtain docs s' where 1: "similarity_search E s q k = (docs, s')"
    by (cases "similarity_search E s q k")
  have 2: "fst (similarity_search E s' q' k) = fst (similarity_search E s q' k)" for q'
    using similarity_search_after[of E s q k q'] 1 by simp
  show ?case using 1 Cons.IH[of s'] by (auto simp: 2 split: prod.splits)
qed

text \<open>With reranking switched off the search is the store's own top-k.\<close>

lemma similarity_search_reranker_disabled:
  "vector_index s = Some ix \<Longrightarrow> \<not> use_reranker s \<Longrightarrow> asimilarity_search E ix query k = Inr docs
   \<Longrightarrow> similarity_search E s query k = (docs, s)"
  by (simp add: similarity_search_def)

text \<open>With reranking switched on and no retriever the search is empty, whatever the store holds.\<close>

lemma similarity_search_without_retriever:
  "vector_index s = Some ix \<Longrightarrow> use_reranker s \<Longrightarrow> compression_retriever s = None
   \<Longrightarrow> similarity_search E s query k = ([], s)"
  by (simp add: similarity_search_def perform_reranked_search_def)

subsection \<open>Conversation memory\<close>

lemma max_memory_add [simp]: "max_memory (add_to_memory c q a) = max_memory c"
  by (simp add: add_to_memory_def Let_def)

lemma max_memory_appends [simp]: "max_memory (appends c qas) = max_memory c"
  unfolding appends_def by (induction qas arbitrary: c) auto

lemma drop_drop_append: "d \<le> length xs \<Longrightarrow> drop n (drop d xs @ ys) = drop (n + d) (xs @ ys)"
  by simp

text \<open>One append on a memory within its bound: the oldest turn goes when the memory is full.\<close>

lemma memory_add:
  assumes b: "int (length (memory c)) \<le> max_memory c"
  shows "memory (add_to_memory c q a)
     = drop (Suc (length (memory c)) - nat (max_memory c))
            (memory c @ [\<lparr>question = q, answer = a\<rparr>])"
proof (cases "int (length (memory c)) = max_memory c")
  case True
  then have d: "Suc (length (memory c)) - nat (max_memory c) = Suc 0" by linarith
  have "memory (add_to_memory c q a) = tl (memory c @ [\<lparr>question = q, answer = a\<rparr>])"
    using True by (simp add: add_to_memory_def Let_def)
  also have "\<dots> = drop (Suc 0) (memory c @ [\<lparr>question = q, answer = a\<rparr>])"
    by (simp only: drop_Suc drop_0)
  finally show ?thesis by (simp only: d)
next
  case False
  then have "Suc (length (memory c)) - nat (max_memory c) = 0" using b by linarith
  then show ?thesis using False b by (simp add: add_to_memory_def Let_def)
qed

lemma length_memory_add:
  "int (length (memory c)) \<le> max_memory c \<Longrightarrow>
   int (length (memory (add_to_memory c q a))) \<le> max_memory c"
  by (simp add: add_to_memory_def Let_def)

lemma memory_appends:
  "int (length (memory c)) \<le> max_memory c \<Longrightarrow>
   int (length (memory (appends c qas))) \<le> max_memory c \<and>
   memory (appends c qas)
     = drop (length (memory c) + length qas - nat (max_memory c)) (memory c @ map as_turn qas)"
proof (induction qas arbitrary: c)
  case Nil
  then show ?case by (simp add: appends_def)
next
  case (Cons qa qas)
  obtain q a where qa: "qa = (q, a)" by (cases qa)
  let ?c1 = "add_to_memory c q a"
  have b1: "int (length (memory ?c1)) \<le> max_memory ?c1"
    using length_memory_add[OF Cons.prems] by simp
  have step: "appends c (qa # qas) = appends ?c1 qas" by (simp add: appends_def qa)
  have m1: "memory ?c1
      = drop (Suc (length (memory c)) - nat (max_memory c)) (memory c @ [as_turn qa])"
    using memory_add[OF Cons.prems] by (simp add: as_turn_def qa)
  have "memory (appends ?c1 qas)
          = drop (length (memory ?c1) + length qas - nat (max_memory c))
                 (memory ?c1 @ map as_turn qas)"
    using Cons.IH[OF b1, THEN conjunct2] by (simp only: max_memory_add)
  also have "\<dots> = drop (length (memory c) + length (qa # qas) - nat (max_memory c))
                     (memory c @ map as_turn (qa # qas))"
  proof -
    define d where "d = Suc (length (memory c)) - nat (max_memory c)"
    define xs where "xs = memory c @ [as_turn qa]"
    define ys where "ys = map as_turn qas"
    have dle: "d \<le> length xs" by (simp add: d_def xs_def)
    have len: "length (drop d xs) = Suc (length (memory c)) - d" by (simp add: xs_def)
    have ar: "Suc (length (memory c)) - d + length qas - nat (max_memory c) + d
                 = length (memory c) + Suc (length qas) - nat (max_memory c)"
      using Cons.prems unfolding d_def by linarith
    have "drop (length (drop d xs) + length qas - nat (max_memory c)) (drop d xs @ ys)
            = drop (length (drop d xs) + length qas - nat (max_memory c) + d) (xs @ ys)"
      by (rule drop_drop_append[OF dle])
    also have "\<dots> = drop (length (memory c) + Suc (length qas) - nat (max_memory c)) (xs @ ys)"
      by (simp only: len ar)
    finally show ?thesis unfolding m1 d_def xs_def ys_def by simp
  qed
  finally have eq: "memory (appends ?c1 qas)
      = drop (length (memory c) + length (qa # qas) - nat (max_memory c))
             (memory c @ map as_turn (qa # qas))" .
  have bound: "int (length (memory (appends ?c1 qas))) \<le> max_memory c"
    using Cons.IH[OF b1, THEN conjunct1] by (simp only: max_memory_add)
  show ?case unfolding step using eq bound by blast
qed

text \<open>With a positive bound the turn just appended is the last of the memory.\<close>

lemma last_memory_add:
  "0 < max_memory c \<Longrightarrow>
   memory (add_to_memory c q a) \<noteq> [] \<and>
   last (memory (add_to_memory c q a)) = \<lparr>question = q, answer = a\<rparr>"
  by (cases "memory c") (auto simp: add_to_memory_def Let_def)

lemma marker_in_stub: "sublist ''TOOL_USE:'' ''TOOL_USE: need more info''"
  by (simp add: sublist_code)


section \<open>The claims\<close>

subsection \<open>C1: duplicates within one ingestion\<close>

text \<open>
  C1 fails on the code. The hash set is there so that no content is stored twice, and a
  document whose hash is registered is skipped; but \<open>create_vector_index\<close> compares every
  document with the hashes registered before the call only, so two entries of one list with
  the same content both pass. Evaluation: from a store just initialised, the list
  \<open>[doc_a1, doc_a2]\<close> (same content) leaves two documents with that content in the index
  and one hash in the set; the claim says one document. (A second call on the same list
  then adds nothing, as the claim says.)
\<close>

theorem create_vector_index_keeps_both_duplicates:
  "post_init quiet VectorStore_defaults Missing = Inr ready
   \<and> page_content doc_a1 = page_content doc_a2
   \<and> create_vector_index quiet ready Missing [doc_a1, doc_a2]
       = Returns (ready\<lparr>vector_index := Some [doc_a1, doc_a2],
                         added_doc_hashes := {get_document_hash quiet doc_a1}\<rparr>,
                  Saved [doc_a1, doc_a2])
   \<and> length (filter (\<lambda>doc. page_content doc = ''a'')
         (stored_documents (ready\<lparr>vector_index := Some [doc_a1, doc_a2],
                                   added_doc_hashes := {get_document_hash quiet doc_a1}\<rparr>))) = 2
   \<and> create_vector_index quiet
         (ready\<lparr>vector_index := Some [doc_a1, doc_a2],
                 added_doc_hashes := {get_document_hash quiet doc_a1}\<rparr>)
         (Saved [doc_a1, doc_a2]) [doc_a1, doc_a2]
       = Returns (ready\<lparr>vector_index := Some [doc_a1, doc_a2],
                         added_doc_hashes := {get_document_hash quiet doc_a1}\<rparr>,
                  Saved [doc_a1, doc_a2])"
  by (simp add: sample_defs vs_defs post_init_def load_local_index_def setup_reranker_def
       stored_documents_def hexdigest_nonempty Let_def)

subsection \<open>C2: a batch whose write fails\<close>

text \<open>
  C2 as stated fails: the handler around the write is \<open>except Exception\<close>. Evaluation: the
  store holds \<open>doc_a1\<close>, the write of the batch \<open>[doc_b]\<close> is interrupted from the
  keyboard, and \<open>add_batch_and_persist\<close> raises the interrupt instead of returning 0.
\<close>

theorem interrupted_write_is_raised:
  "write_batch write_interrupted holds_a1 [doc_b]
     = Inl (BaseException ''KeyboardInterrupt'', holds_a1)
   \<and> add_batch_and_persist write_interrupted holds_a1 (Saved [doc_a1]) [doc_b]
       = Raises (BaseException ''KeyboardInterrupt'')"
  by (simp add: add_batch_and_persist_def write_batch_def FAISS_add_documents_def
      write_interrupted_def holds_a1_def sample_defs)

text \<open>
  C2, amended. Take a non-empty batch and a task that gets its permit. If the write to the
  store raises an \<open>Exception\<close>, then \<open>add_batch_and_persist\<close> returns 0; the hash set is
  as it was, so no hash of a document that was new is in it; nothing is saved; and the index
  is as the write left it: still none when there was none, and otherwise what
  \<open>add_documents\<close> left behind, with as many documents as before whenever that call raised
  without adding any. If the write raises anything else, \<open>add_batch_and_persist\<close> raises it.
\<close>

theorem failed_write_registers_nothing:
  assumes "batch \<noteq> []" and "0 < semaphore s"
  shows "(write_batch E s batch = Inl (Exception e, s') \<longrightarrow>
            add_batch_and_persist E s d batch = Returns (0, s', d)
            \<and> added_doc_hashes s' = added_doc_hashes s
            \<and> (\<forall>doc \<in> set batch. is_new_document E s doc \<longrightarrow>
                  get_document_hash E doc \<notin> added_doc_hashes s')
            \<and> (vector_index s = None \<longrightarrow> s' = s)
            \<and> (\<forall>ix. vector_index s = Some ix \<longrightarrow>
                  (\<exists>left. FAISS_add_documents E ix batch = Inl (Exception e, left)
                          \<and> s' = s\<lparr>vector_index := Some left\<rparr>
                          \<and> (length left = length ix \<longrightarrow>
                                length (stored_documents s') = length (stored_documents s)))))
         \<and> (write_batch E s batch = Inl (BaseException e, s') \<longrightarrow>
              add_batch_and_persist E s d batch = Raises (BaseException e))"
proof -
  have run: "add_batch_and_persist E s d batch = Returns (0, s', d)"
    if "write_batch E s batch = Inl (Exception e, s')"
    using that assms by (simp add: add_batch_and_persist_def)
  have raise: "add_batch_and_persist E s d batch = Raises (BaseException e)"
    if "write_batch E s batch = Inl (BaseException e, s')"
    using that assms by (simp add: add_batch_and_persist_def)
  have hashes: "added_doc_hashes s' = added_doc_hashes s"
    if "write_batch E s batch = Inl (Exception e, s')"
    using write_batch_failed[OF that] by auto
  have new: "\<forall>doc \<in> set batch. is_new_document E s doc \<longrightarrow>
               get_document_hash E doc \<notin> added_doc_hashes s'"
    if "write_batch E s batch = Inl (Exception e, s')"
    using hashes[OF that] by (simp add: is_new_document_def Let_def)
  have none: "vector_index s = None \<longrightarrow> s' = s"
    if "write_batch E s batch = Inl (Exception e, s')"
    using write_batch_failed[OF that] by auto
  have some: "\<forall>ix. vector_index s = Some ix \<longrightarrow>
                  (\<exists>left. FAISS_add_documents E ix batch = Inl (Exception e, left)
                          \<and> s' = s\<lparr>vector_index := Some left\<rparr>
                          \<and> (length left = length ix \<longrightarrow>
                                length (stored_documents s') = length (stored_documents s)))"
    if "write_batch E s batch = Inl (Exception e, s')"
    using write_batch_failed[OF that] by (auto simp: stored_documents_def)
  show ?thesis using run raise hashes new none some by blast
qed

text \<open>
  The amended C2 at the samples: \<open>from_documents\<close> fails on a store without an index;
  \<open>add_documents\<close> fails before it has added anything, and after it has added one document
  (the index then holds it, its hash is not registered); \<open>add_documents\<close> is interrupted.
\<close>

theorem failed_write_registers_nothing_witness:
  "[doc_b] \<noteq> [] \<and> 0 < semaphore ready \<and> 0 < semaphore holds_a1
   \<and> write_batch create_fails ready [doc_b] = Inl (Exception ''embedding request failed'', ready)
   \<and> add_batch_and_persist create_fails ready Missing [doc_b] = Returns (0, ready, Missing)
   \<and> write_batch write_fails holds_a1 [doc_b]
       = Inl (Exception ''embedding request failed'', holds_a1)
   \<and> add_batch_and_persist write_fails holds_a1 (Saved [doc_a1]) [doc_b]
       = Returns (0, holds_a1, Saved [doc_a1])
   \<and> is_new_document write_fails holds_a1 doc_b
   \<and> get_document_hash write_fails doc_b \<notin> added_doc_hashes holds_a1
   \<and> write_batch write_fails_midway holds_a1 [doc_b]
       = Inl (Exception ''out of memory'', holds_a1\<lparr>vector_index := Some [doc_a1, doc_b]\<rparr>)
   \<and> add_batch_and_persist write_fails_midway holds_a1 (Saved [doc_a1]) [doc_b]
       = Returns (0, holds_a1\<lparr>vector_index := Some [doc_a1, doc_b]\<rparr>, Saved [doc_a1])
   \<and> write_batch write_interrupted holds_a1 [doc_b]
       = Inl (BaseException ''KeyboardInterrupt'', holds_a1)
   \<and> add_batch_and_persist write_interrupted holds_a1 (Saved [doc_a1]) [doc_b]
       = Raises (BaseException ''KeyboardInterrupt'')"
proof -
  have h: "[doc_b] \<noteq> []" "0 < semaphore ready" "0 < semaphore holds_a1"
    by (simp_all add: holds_a1_def sample_defs)
  have w1: "write_batch create_fails ready [doc_b]
              = Inl (Exception ''embedding request failed'', ready)"
    by (simp add: write_batch_def FAISS_from_documents_def create_fails_def sample_defs)
  have w2: "write_batch write_fails holds_a1 [doc_b]
              = Inl (Exception ''embedding request failed'', holds_a1)"
    by (simp add: write_batch_def FAISS_add_documents_def write_fails_def holds_a1_def sample_defs)
  have w3: "write_batch write_fails_midway holds_a1 [doc_b]
              = Inl (Exception ''out of memory'', holds_a1\<lparr>vector_index := Some [doc_a1, doc_b]\<rparr>)"
    by (simp add: write_batch_def FAISS_add_documents_def write_fails_midway_def holds_a1_def
        sample_defs)
  have w4: "write_batch write_interrupted holds_a1 [doc_b]
              = Inl (BaseException ''KeyboardInterrupt'', holds_a1)"
    by (simp add: write_batch_def FAISS_add_documents_def write_interrupted_def holds_a1_def
        sample_defs)
  have new: "is_new_document write_fails holds_a1 doc_b"
    by (simp add: is_new_document_def get_document_hash_def write_fails_def holds_a1_def
        quiet_def doc_a1_def doc_b_def ready_def VectorStore_defaults_def
        hexdigest_a hexdigest_b Let_def)
  show ?thesis
    using h w1 w2 w3 w4 new
      failed_write_registers_nothing[OF h(1) h(2), of create_fails
        "''embedding request failed''" ready Missing]
      failed_write_registers_nothing[OF h(1) h(3), of write_fails
        "''embedding request failed''" holds_a1 "Saved [doc_a1]"]
      failed_write_registers_nothing[OF h(1) h(3), of write_fails_midway
        "''out of memory''" "holds_a1\<lparr>vector_index := Some [doc_a1, doc_b]\<rparr>" "Saved [doc_a1]"]
      failed_write_registers_nothing[OF h(1) h(3), of write_interrupted
        "''KeyboardInterrupt''" holds_a1 "Saved [doc_a1]"]
    by simp
qed

subsection \<open>C3: what invoke lets through\<close>




subsection \<open>C4: the fallback succeeds\<close>

text \<open>
  C4. When the retrieval and the first generation return, the first text contains
  \<open>TOOL_USE:\<close>, and the tool and the second generation return, then \<open>invoke\<close> returns the
  second text, and the turn it appends to the memory is the question with that second text
  (with a positive bound this turn is the last of the memory afterwards).
\<close>

theorem invoke_returns_and_stores_second_answer:
  assumes "hybrid_retrieval V q k = Inr context"
      and "llm_initial V (prompt_format V context (format_history c) q) = Inr first"
      and "sublist ''TOOL_USE:'' first"
      and "pubmed_tool V q = Inr results"
      and "llm_final V (reprompt_format V results context (format_history c) q) = Inr second"
  shows "invoke V c q k = Inr (second, add_to_memory c q second)
         \<and> (0 < max_memory c \<longrightarrow>
              memory (add_to_memory c q second) \<noteq> []
              \<and> last (memory (add_to_memory c q second)) = \<lparr>question = q, answer = second\<rparr>)"
  using assms last_memory_add[of c q second] by (simp add: invoke_def)

text \<open>C4 at the samples: the answer and the stored turn are the second call's text.\<close>

theorem invoke_returns_and_stores_second_answer_witness:
  "hybrid_retrieval stub_services ''q'' 3 = Inr ''context''
   \<and> llm_initial stub_services
        (prompt_format stub_services ''context'' (format_history (new_chain 10)) ''q'')
       = Inr ''TOOL_USE: need more info''
   \<and> sublist ''TOOL_USE:'' ''TOOL_USE: need more info''
   \<and> pubmed_tool stub_services ''q'' = Inr ''pubmed results''
   \<and> llm_final stub_services
        (reprompt_format stub_services ''pubmed results'' ''context''
           (format_history (new_chain 10)) ''q'')
       = Inr ''a real answer''
   \<and> invoke stub_services (new_chain 10) ''q'' 3
       = Inr (''a real answer'',
              \<lparr>memory = [\<lparr>question = ''q'', answer = ''a real answer''\<rparr>], max_memory = 10\<rparr>)"
proof -
  have h: "hybrid_retrieval stub_services ''q'' 3 = Inr ''context''"
    "llm_initial stub_services
        (prompt_format stub_services ''context'' (format_history (new_chain 10)) ''q'')
       = Inr ''TOOL_USE: need more info''"
    "sublist ''TOOL_USE:'' ''TOOL_USE: need more info''"
    "pubmed_tool stub_services ''q'' = Inr ''pubmed results''"
    "llm_final stub_services
        (reprompt_format stub_services ''pubmed results'' ''context''
           (format_history (new_chain 10)) ''q'')
       = Inr ''a real answer''"
    by (simp_all add: stub_services_def marker_in_stub)
  show ?thesis
    using h invoke_returns_and_stores_second_answer[OF h]
    by (simp add: add_to_memory_def new_chain_def)
qed

subsection \<open>C5: the tool fails\<close>

text \<open>
  C5 as stated fails: the handler around the tool is \<open>except Exception\<close>. Evaluation: the
  first text holds the marker, the call of the tool raises a \<open>CancelledError\<close>, and
  \<open>invoke\<close> raises it.
\<close>

theorem invoke_propagates_cancelled_tool:
  "hybrid_retrieval pubmed_cancelled ''q'' 3 = Inr ''context''
   \<and> llm_initial pubmed_cancelled
        (prompt_format pubmed_cancelled ''context'' (format_history (new_chain 10)) ''q'')
       = Inr ''TOOL_USE: need more info''
   \<and> sublist ''TOOL_USE:'' ''TOOL_USE: need more info''
   \<and> pubmed_tool pubmed_cancelled ''q'' = Inl (BaseException ''CancelledError'')
   \<and> invoke pubmed_cancelled (new_chain 10) ''q'' 3 = Inl (BaseException ''CancelledError'')"
  by (simp add: invoke_def pubmed_cancelled_def stub_services_def marker_in_stub)

text \<open>
  C5, amended. When the retrieval and the first generation return, the first text contains
  \<open>TOOL_USE:\<close> and the tool raises an \<open>Exception\<close> with text \<open>e\<close>, then \<open>invoke\<close> returns
  (it does not raise); the answer is the message built from \<open>e\<close> and the first text: it is
  not empty and contains the exception's text, the first text, and so the marker.
\<close>

theorem invoke_survives_tool_failure:
  assumes "hybrid_retrieval V q k = Inr context"
      and "llm_initial V (prompt_format V context (format_history c) q) = Inr first"
      and "sublist ''TOOL_USE:'' first"
      and "pubmed_tool V q = Inl (Exception e)"
  shows "\<exists>a. invoke V c q k = Inr (a, add_to_memory c q a)
             \<and> a = tool_error_answer e first
             \<and> a \<noteq> [] \<and> sublist e a \<and> sublist first a \<and> sublist ''TOOL_USE:'' a"
proof -
  let ?a = "tool_error_answer e first"
  have run: "invoke V c q k = Inr (?a, add_to_memory c q ?a)"
    using assms by (simp add: invoke_def)
  have ne: "?a \<noteq> []" by (simp add: tool_error_answer_def)
  have se: "sublist e ?a"
    unfolding tool_error_answer_def by (rule sublist_appendI)
  have "sublist first ((''An error occurred while trying to use the PubMed tool: '' @ e
          @ [CHR 0x0A] @ ''Original attempt: '') @ first @ [])"
    by (rule sublist_appendI)
  then have sf: "sublist first ?a" by (simp add: tool_error_answer_def)
  have sm: "sublist ''TOOL_USE:'' ?a"
    using assms(3) sf by (rule sublist_order.order_trans)
  show ?thesis using run ne se sf sm by blast
qed

text \<open>The amended C5 at the samples, with the tool down: the answer returned and stored.\<close>

theorem invoke_survives_tool_failure_witness:
  "hybrid_retrieval pubmed_down ''q'' 3 = Inr ''context''
   \<and> llm_initial pubmed_down
        (prompt_format pubmed_down ''context'' (format_history (new_chain 10)) ''q'')
       = Inr ''TOOL_USE: need more info''
   \<and> sublist ''TOOL_USE:'' ''TOOL_USE: need more info''
   \<and> pubmed_tool pubmed_down ''q'' = Inl (Exception ''HTTP Error 429'')
   \<and> invoke pubmed_down (new_chain 10) ''q'' 3
       = Inr (''An error occurred while trying to use the PubMed tool: HTTP Error 429''
                @ [CHR 0x0A] @ ''Original attempt: TOOL_USE: need more info'',
              \<lparr>memory = [\<lparr>question = ''q'',
                          answer = ''An error occurred while trying to use the PubMed tool: HTTP Error 429''
                                     @ [CHR 0x0A] @ ''Original attempt: TOOL_USE: need more info''\<rparr>],
               max_memory = 10\<rparr>)"
proof -
  have h: "hybrid_retrieval pubmed_down ''q'' 3 = Inr ''context''"
    "llm_initial pubmed_down
        (prompt_format pubmed_down ''context'' (format_history (new_chain 10)) ''q'')
       = Inr ''TOOL_USE: need more info''"
    "sublist ''TOOL_USE:'' ''TOOL_USE: need more info''"
    "pubmed_tool pubmed_down ''q'' = Inl (Exception ''HTTP Error 429'')"
    by (simp_all add: pubmed_down_def stub_services_def marker_in_stub)
  show ?thesis
    using h invoke_survives_tool_failure[OF h]
    by (auto simp: tool_error_answer_def add_to_memory_def new_chain_def)
qed

subsection \<open>C6: the memory bound\<close>

text \<open>
  C6 as stated fails for a negative \<open>max_memory\<close>, which the constructor accepts: every
  append is followed by a \<open>pop\<close>, the memory is empty afterwards, and zero turns are more
  than a negative bound. Evaluation at \<open>max_memory = -1\<close>.
\<close>

theorem negative_bound_is_exceeded:
  "memory (appends (new_chain (- 1)) [(''q'', ''a'')]) = []
   \<and> max_memory (new_chain (- 1)) < int (length (memory (appends (new_chain (- 1)) [(''q'', ''a'')])))"
  by (simp add: appends_def add_to_memory_def new_chain_def)

text \<open>
  C6, amended. Let the memory be within its bound when the appends start (a new chain's
  empty memory is, exactly when \<open>max_memory\<close> is not negative). Then after every sequence
  of appends the memory holds at most \<open>max_memory\<close> turns, and it holds the last turns of
  what was there followed by what was appended, in insertion order; in particular, after
  \<open>max_memory + 5\<close> appends to an empty memory it holds exactly the last \<open>max_memory\<close> of
  them.
\<close>

theorem memory_bounded_fifo:
  assumes "int (length (memory c)) \<le> max_memory c"
  shows "int (length (memory (appends c qas))) \<le> max_memory c
         \<and> memory (appends c qas)
             = drop (length (memory c) + length qas - nat (max_memory c))
                    (memory c @ map as_turn qas)
         \<and> (memory c = [] \<and> length qas = nat (max_memory c) + 5 \<longrightarrow>
              length (memory (appends c qas)) = nat (max_memory c)
              \<and> memory (appends c qas) = drop 5 (map as_turn qas))"
proof -
  note m = memory_appends[OF assms, of qas]
  have "length (memory (appends c qas)) = nat (max_memory c)
        \<and> memory (appends c qas) = drop 5 (map as_turn qas)"
    if "memory c = []" "length qas = nat (max_memory c) + 5"
    using m that by simp
  then show ?thesis using m by blast
qed

text \<open>The amended C6 for a bound of two and seven appends: the last two turns remain.\<close>

theorem memory_bounded_fifo_witness:
  "int (length (memory (new_chain 2))) \<le> max_memory (new_chain 2)
   \<and> memory (appends (new_chain 2)
        [(''q1'', ''a1''), (''q2'', ''a2''), (''q3'', ''a3''), (''q4'', ''a4''), (''q5'', ''a5''),
         (''q6'', ''a6''), (''q7'', ''a7'')])
       = [\<lparr>question = ''q6'', answer = ''a6''\<rparr>, \<lparr>question = ''q7'', answer = ''a7''\<rparr>]"
proof -
  have h: "int (length (memory (new_chain 2))) \<le> max_memory (new_chain 2)"
    by (simp add: new_chain_def)
  show ?thesis
    using h memory_bounded_fifo[OF h, of
        "[(''q1'', ''a1''), (''q2'', ''a2''), (''q3'', ''a3''), (''q4'', ''a4''), (''q5'', ''a5''),
         (''q6'', ''a6''), (''q7'', ''a7'')]"]
    by (simp add: new_chain_def as_turn_def)
qed

subsection \<open>C7: search without a retriever\<close>

text \<open>
  C7 fails on the code where reranking is switched on and no retriever was built.
  Evaluation: a store made with the defaults and no persist directory has
  \<open>use_reranker\<close> set and no retriever, since \<open>setup_reranker\<close> returns early without an
  index; ingestion builds the index and does not call \<open>setup_reranker\<close> again. The store
  then holds \<open>doc_a1\<close>, its own top-k search returns it, and \<open>similarity_search\<close> returns
  the empty list.
\<close>

theorem search_is_empty_after_first_ingestion:
  "post_init quiet VectorStore_defaults Missing = Inr ready
   \<and> create_vector_index quiet ready Missing [doc_a1] = Returns (holds_a1, Saved [doc_a1])
   \<and> use_reranker holds_a1 \<and> compression_retriever holds_a1 = None
   \<and> asimilarity_search quiet [doc_a1] ''a'' 4 = Inr [doc_a1]
   \<and> similarity_search quiet holds_a1 ''a'' 4 = ([], holds_a1)"
  by (simp add: holds_a1_def sample_defs vs_defs post_init_def load_local_index_def
      setup_reranker_def similarity_search_def perform_reranked_search_def hexdigest_nonempty
      Let_def)

subsection \<open>C8: the hash of blank content\<close>




subsection \<open>C9: delete_index\<close>




subsection \<open>C10: batch_query\<close>

text \<open>
  C10. \<open>batch_query\<close> returns one result for each query, in the order of the queries: the
  result at a position is what \<open>similarity_search\<close> returns for the query at that
  position. Without an index the result is a list of as many empty lists as there are
  queries.
\<close>

theorem batch_query_one_result_per_query:
  "fst (batch_query E s queries k) = map (\<lambda>q. fst (similarity_search E s q k)) queries
   \<and> length (fst (batch_query E s queries k)) = length queries
   \<and> (vector_index s = None \<longrightarrow>
        fst (batch_query E s queries k) = replicate (length queries) [])"
proof -
  have 1: "fst (batch_query E s queries k) = map (\<lambda>q. fst (similarity_search E s q k)) queries"
    by (simp add: batch_query_def gather_searches_map similarity_search_no_index)
  have 2: "vector_index s = None \<longrightarrow>
             fst (batch_query E s queries k) = replicate (length queries) []"
    by (simp add: batch_query_def map_replicate_const)
  from 1 2 show ?thesis by simp
qed

text \<open>C10 at a store without an index and three queries, and at a store with one.\<close>

theorem batch_query_one_result_per_query_witness:
  "vector_index ready = None
   \<and> fst (batch_query quiet ready [''a'', ''b'', ''c''] 4) = [[], [], []]
   \<and> fst (batch_query quiet (holds_a1\<lparr>use_reranker := False\<rparr>) [''a'', ''b''] 4)
       = [[doc_a1], [doc_a1]]"
  using batch_query_one_result_per_query[of quiet ready "[''a'', ''b'', ''c'']" 4]
        batch_query_one_result_per_query[of quiet "holds_a1\<lparr>use_reranker := False\<rparr>"
          "[''a'', ''b'']" 4]
  by (simp add: sample_defs holds_a1_def similarity_search_def numeral_3_eq_3)

end
